theory Spec2Isabelle
  imports Main "HOL-Library.Word"
begin

section \<open>Go values shared by the packages\<close>

subsection \<open>Errors (package errors)\<close>

text \<open>
  A Go \<^verbatim>\<open>error\<close> is an interface value; \<^verbatim>\<open>nil\<close> is \<open>None\<close> of \<open>error option\<close>.
  \<open>ErrServerClosed\<close> is the sentinel \<^verbatim>\<open>http.ErrServerClosed\<close>, \<open>ErrorString\<close> a value of
  \<^verbatim>\<open>errors.New\<close>, \<open>WrapError\<close> a value of \<^verbatim>\<open>fmt.Errorf\<close> with one \<^verbatim>\<open>%w\<close> (its formatted
  message and the wrapped error), \<open>JoinError\<close> the value \<^verbatim>\<open>errors.Join\<close> builds,
  \<open>MaxBytesError\<close> the \<^verbatim>\<open>*http.MaxBytesError\<close> with its limit, \<open>io_EOF\<close> and
  \<open>io_ErrUnexpectedEOF\<close> the sentinels of package io, \<open>SyntaxError\<close> the
  \<^verbatim>\<open>*json.SyntaxError\<close> with its message and offset, and \<open>UnmarshalTypeError\<close> the
  \<^verbatim>\<open>*json.UnmarshalTypeError\<close> with the description of the JSON value and the Go type.
\<close>

datatype error =
    ErrServerClosed
  | ErrorString string
  | WrapError string error
  | JoinError "error list"
  | MaxBytesError int
  | io_EOF
  | io_ErrUnexpectedEOF
  | SyntaxError string int
  | UnmarshalTypeError string string

text \<open>\<^verbatim>\<open>errors.Is(err, target)\<close>: equality, or the same for what \<^verbatim>\<open>Unwrap\<close> gives.\<close>

fun errors_Is :: "error \<Rightarrow> error \<Rightarrow> bool" where
  "errors_Is (WrapError m e) t = (WrapError m e = t \<or> errors_Is e t)"
| "errors_Is (JoinError es) t = (JoinError es = t \<or> (\<exists>e \<in> set es. errors_Is e t))"
| "errors_Is e t = (e = t)"




subsection \<open>Panics\<close>

text \<open>
  A call either returns or panics with a value. \<open>PanicRuntimeError\<close> is the run-time panic
  of the language itself (calling a nil function value).
\<close>

datatype panic_value =
    PanicString string
  | PanicError error
  | PanicRuntimeError string

datatype 'a outcome = Returns 'a | Panics panic_value

subsection \<open>Contexts (packages context and os/signal)\<close>

type_synonym addr = nat

text \<open>
  The key type of package httplib is \<^verbatim>\<open>type contextKey uint8\<close>; keys of other packages have
  other types and never equal one of these.
\<close>

datatype key = ContextKey "8 word" | ForeignKey string

text \<open>
  The values the library stores in a context, and a string for a value of another type.
  A pointer is an address or nil.
\<close>

datatype any =
    RequestLogPtr "addr option"
  | ResponseLogPtr "addr option"
  | DurationValue int
  | StringValue string

datatype signal = SIGHUP | SIGINT | SIGQUIT | SIGKILL | SIGTERM

definition os_Interrupt :: signal where
  "os_Interrupt = SIGINT"

text \<open>
  A context is the chain of its derivations. Every cancellable context carries the
  identity (a number) under which the world below records its cancellation.
  \<open>NotifyContext\<close> is the context of \<^verbatim>\<open>signal.NotifyContext\<close>: its cancel function is
  private, reachable only through the stop function and the signal handler.
\<close>

datatype "context" =
    Background
  | WithValue "context" key any
  | WithCancel "context" nat
  | WithDeadline "context" nat int
  | WithoutCancel "context"
  | NotifyContext "context" nat "signal list"

text \<open>
  The part of the process state that decides whether a context is done: the clock (in
  nanoseconds), the next unused identity, the cancel functions that have been called, the
  stop functions that have been called, the signal contexts that a signal has cancelled, and
  the active signal registrations.
\<close>

record world =
  now :: int
  next_id :: nat
  cancelled :: "nat set"
  stopped :: "nat set"
  received :: "nat set"
  registered :: "(nat \<times> signal list) list"

text \<open>\<^verbatim>\<open>ctx.Err() != nil\<close>, that is, \<^verbatim>\<open>ctx.Done()\<close> is closed.\<close>

fun ctx_done :: "world \<Rightarrow> context \<Rightarrow> bool" where
  "ctx_done w Background = False"
| "ctx_done w (WithValue p k v) = ctx_done w p"
| "ctx_done w (WithCancel p i) = (i \<in> cancelled w \<or> ctx_done w p)"
| "ctx_done w (WithDeadline p i d) = (i \<in> cancelled w \<or> d \<le> now w \<or> ctx_done w p)"
| "ctx_done w (WithoutCancel p) = False"
| "ctx_done w (NotifyContext p i sigs) = (i \<in> received w \<or> i \<in> stopped w \<or> ctx_done w p)"

text \<open>\<^verbatim>\<open>ctx.Deadline()\<close>.\<close>

fun ctx_Deadline :: "context \<Rightarrow> int option" where
  "ctx_Deadline Background = None"
| "ctx_Deadline (WithValue p k v) = ctx_Deadline p"
| "ctx_Deadline (WithCancel p i) = ctx_Deadline p"
| "ctx_Deadline (WithDeadline p i d) =
     (case ctx_Deadline p of None \<Rightarrow> Some d | Some d' \<Rightarrow> Some (min d d'))"
| "ctx_Deadline (WithoutCancel p) = None"
| "ctx_Deadline (NotifyContext p i sigs) = ctx_Deadline p"

text \<open>\<^verbatim>\<open>ctx.Value(key)\<close>: the nearest value stored under the key, nil when there is none.\<close>

fun ctx_Value :: "context \<Rightarrow> key \<Rightarrow> any option" where
  "ctx_Value Background k = None"
| "ctx_Value (WithValue p k' v) k = (if k' = k then Some v else ctx_Value p k)"
| "ctx_Value (WithCancel p i) k = ctx_Value p k"
| "ctx_Value (WithDeadline p i d) k = ctx_Value p k"
| "ctx_Value (WithoutCancel p) k = ctx_Value p k"
| "ctx_Value (NotifyContext p i sigs) k = ctx_Value p k"

text \<open>The contexts a context is derived from, nearest first.\<close>

fun ancestors :: "context \<Rightarrow> context list" where
  "ancestors Background = []"
| "ancestors (WithValue p k v) = p # ancestors p"
| "ancestors (WithCancel p i) = p # ancestors p"
| "ancestors (WithDeadline p i d) = p # ancestors p"
| "ancestors (WithoutCancel p) = p # ancestors p"
| "ancestors (NotifyContext p i sigs) = p # ancestors p"

text \<open>
  \<^verbatim>\<open>context.WithTimeout(parent, timeout)\<close>: a new context with the deadline
  \<^verbatim>\<open>time.Now().Add(timeout)\<close>, and its cancel function (named by the identity).
\<close>

definition context_WithTimeout :: "world \<Rightarrow> context \<Rightarrow> int \<Rightarrow> world \<times> context \<times> nat" where
  "context_WithTimeout w parent timeout =
     (let i = next_id w
      in (w\<lparr>next_id := Suc i\<rparr>, WithDeadline parent i (now w + timeout), i))"

text \<open>Calling the cancel function of a \<open>WithCancel\<close> or \<open>WithDeadline\<close> context.\<close>

definition cancel :: "nat \<Rightarrow> world \<Rightarrow> world" where
  "cancel i w = w\<lparr>cancelled := insert i (cancelled w)\<rparr>"

text \<open>
  \<^verbatim>\<open>signal.NotifyContext(parent, signals...)\<close>: a new context, registered for the signals;
  the stop function is named by the identity.
\<close>

definition signal_NotifyContext ::
  "world \<Rightarrow> context \<Rightarrow> signal list \<Rightarrow> world \<times> context \<times> nat" where
  "signal_NotifyContext w parent sigs =
     (let i = next_id w
      in (w\<lparr>next_id := Suc i, registered := (i, sigs) # registered w\<rparr>,
          NotifyContext parent i sigs, i))"

text \<open>
  The stop function of a signal context: it cancels the context and then unregisters it
  (\<^verbatim>\<open>c.cancel(); signal.Stop(c.ch)\<close>).
\<close>

definition stop :: "nat \<Rightarrow> world \<Rightarrow> world" where
  "stop i w =
     w\<lparr>stopped := insert i (stopped w), registered := filter (\<lambda>(j, sigs). j \<noteq> i) (registered w)\<rparr>"

text \<open>The process receives a signal: every context registered for it is cancelled.\<close>

definition deliver :: "signal \<Rightarrow> world \<Rightarrow> world" where
  "deliver s w =
     w\<lparr>received := received w \<union> set (map fst (filter (\<lambda>(j, sigs). s \<in> set sigs) (registered w)))\<rparr>"

text \<open>Whether the process intercepts a signal for the context with this identity.\<close>

definition intercepts :: "world \<Rightarrow> nat \<Rightarrow> signal \<Rightarrow> bool" where
  "intercepts w i s = (\<exists>(j, sigs) \<in> set (registered w). j = i \<and> s \<in> set sigs)"

text \<open>What can happen to the world from outside the runner.\<close>

datatype event = Advance nat | CancelFunc nat | StopFunc nat | Deliver signal

fun apply_event :: "event \<Rightarrow> world \<Rightarrow> world" where
  "apply_event (Advance d) w = w\<lparr>now := now w + int d\<rparr>"
| "apply_event (CancelFunc i) w = cancel i w"
| "apply_event (StopFunc i) w = stop i w"
| "apply_event (Deliver s) w = deliver s w"

fun run_events :: "event list \<Rightarrow> world \<Rightarrow> world" where
  "run_events [] w = w"
| "run_events (e # es) w = run_events es (apply_event e w)"

text \<open>Identities are handed out in order: none that is recorded is unused.\<close>

definition wf_world :: "world \<Rightarrow> bool" where
  "wf_world w =
     ((\<forall>i \<in> cancelled w. i < next_id w) \<and> (\<forall>i \<in> stopped w. i < next_id w) \<and>
      (\<forall>i \<in> received w. i < next_id w) \<and> (\<forall>i \<in> set (map fst (registered w)). i < next_id w))"

definition init_world :: world where
  "init_world = \<lparr>now = 0, next_id = 0, cancelled = {}, stopped = {}, received = {}, registered = []\<rparr>"

section \<open>Package runner\<close>

text \<open>
  The \<^verbatim>\<open>*http.Server\<close> the runner owns, by what the runner uses of it: the address, how
  \<^verbatim>\<open>ListenAndServe\<close> ends (it returns an error or panics), and what \<^verbatim>\<open>Shutdown\<close> returns for
  the context it is given.
\<close>

record http_Server =
  Server_Addr :: string
  Server_ListenAndServe :: "error option outcome"
  Server_Shutdown :: "context \<Rightarrow> error option"

type_synonym onError_func = "context \<Rightarrow> error \<Rightarrow> unit outcome"
type_synonym onPanic_func = "context \<Rightarrow> panic_value \<Rightarrow> unit outcome"

text \<open>The struct \<^verbatim>\<open>httpServerRunner\<close>. A Go function value can be nil.\<close>

record httpServerRunner =
  server :: http_Server
  onError :: "onError_func option"
  onPanic :: "onPanic_func option"

definition noop_onError :: onError_func where
  "noop_onError ctx err = Returns ()"

definition noop_onPanic :: onPanic_func where
  "noop_onPanic ctx rvr = Returns ()"

definition NewHTTPServerRunner ::
  "http_Server option \<Rightarrow> onError_func option \<Rightarrow> onPanic_func option
     \<Rightarrow> panic_value + httpServerRunner" where
  "NewHTTPServerRunner srv onError0 onPanic0 =
     (case srv of
        None \<Rightarrow> Inl (PanicString ''server is nil'')
      | Some s \<Rightarrow>
          (let onError1 = (case onError0 of None \<Rightarrow> Some noop_onError | Some f \<Rightarrow> Some f);
               onPanic1 = (case onPanic0 of None \<Rightarrow> Some noop_onPanic | Some f \<Rightarrow> Some f)
           in Inr \<lparr>server = s, onError = onError1, onPanic = onPanic1\<rparr>))"

definition Addr :: "httpServerRunner \<Rightarrow> string" where
  "Addr r = Server_Addr (server r)"

text \<open>Calling a function value: a nil one panics.\<close>

definition call_onError :: "httpServerRunner \<Rightarrow> context \<Rightarrow> error \<Rightarrow> unit outcome" where
  "call_onError r ctx err =
     (case onError r of
        None \<Rightarrow> Panics (PanicRuntimeError ''invalid memory address or nil pointer dereference'')
      | Some f \<Rightarrow> f ctx err)"

definition call_onPanic :: "httpServerRunner \<Rightarrow> context \<Rightarrow> panic_value \<Rightarrow> unit outcome" where
  "call_onPanic r ctx rvr =
     (case onPanic r of
        None \<Rightarrow> Panics (PanicRuntimeError ''invalid memory address or nil pointer dereference'')
      | Some f \<Rightarrow> f ctx rvr)"

text \<open>The calls of the two callbacks, in order.\<close>

datatype sink_call = OnErrorCalled "context" error | OnPanicCalled "context" panic_value

text \<open>
  The body of the goroutine of \<^verbatim>\<open>Run\<close>, without its deferred function: the calls made and
  how the body ends.
\<close>

definition serve :: "httpServerRunner \<Rightarrow> context \<Rightarrow> sink_call list \<times> unit outcome" where
  "serve r ctx =
     (case Server_ListenAndServe (server r) of
        Panics v \<Rightarrow> ([], Panics v)
      | Returns srvErr \<Rightarrow>
          (case srvErr of
             None \<Rightarrow> ([], Returns ())
           | Some e \<Rightarrow>
               if \<not> errors_Is e ErrServerClosed
               then ([OnErrorCalled ctx e], call_onError r ctx e)
               else ([], Returns ())))"

text \<open>
  The goroutine with its deferred function: \<^verbatim>\<open>recover()\<close> is non-nil exactly when the body
  panicked (the module is on Go 1.25, where \<^verbatim>\<open>panic(nil)\<close> has a non-nil value); the panic
  is then handed to \<^verbatim>\<open>onPanic\<close>, and the goroutine ends the way that call ends. A goroutine
  that ends with \<open>Panics\<close> crashes the process.
\<close>

definition goroutine :: "httpServerRunner \<Rightarrow> context \<Rightarrow> sink_call list \<times> unit outcome" where
  "goroutine r ctx =
     (case serve r ctx of
        (calls, Returns u) \<Rightarrow> (calls, Returns ())
      | (calls, Panics rvr) \<Rightarrow> (calls @ [OnPanicCalled ctx rvr], call_onPanic r ctx rvr))"

text \<open>
  \<^verbatim>\<open>Run\<close>: the new world, the completion context, the identity of the stop function, and
  the context the goroutine it starts runs with.
\<close>

record run_result =
  run_world :: world
  run_ctx :: "context"
  run_stop :: nat
  run_goroutine_ctx :: "context"

definition Run :: "httpServerRunner \<Rightarrow> world \<Rightarrow> context \<Rightarrow> run_result" where
  "Run r w ctx =
     (let ctx1 = WithoutCancel ctx;
          (w1, ctx2, stop_id) = signal_NotifyContext w ctx1 [SIGTERM, os_Interrupt]
      in \<lparr>run_world = w1, run_ctx = ctx2, run_stop = stop_id, run_goroutine_ctx = ctx2\<rparr>)"

text \<open>
  \<^verbatim>\<open>Shutdown\<close>: the context handed to \<^verbatim>\<open>Server.Shutdown\<close>, the error returned, and the world
  afterwards (the deferred cancel has run).
\<close>

record shutdown_result =
  shutdown_ctx :: "context"
  shutdown_err :: "error option"
  shutdown_world :: world

definition Shutdown :: "httpServerRunner \<Rightarrow> world \<Rightarrow> int \<Rightarrow> shutdown_result" where
  "Shutdown r w timeout =
     (let ctx = Background
      in if timeout \<le> 0
         then \<lparr>shutdown_ctx = ctx, shutdown_err = Server_Shutdown (server r) ctx,
               shutdown_world = w\<rparr>
         else (let (w1, ctx1, cancel_id) = context_WithTimeout w ctx timeout;
                   err = Server_Shutdown (server r) ctx1
               in \<lparr>shutdown_ctx = ctx1, shutdown_err = err, shutdown_world = cancel cancel_id w1\<rparr>))"

subsection \<open>Observations, and values used as concrete inputs\<close>

fun is_OnError :: "sink_call \<Rightarrow> bool" where
  "is_OnError (OnErrorCalled c e) = True"
| "is_OnError (OnPanicCalled c v) = False"

fun is_OnPanic :: "sink_call \<Rightarrow> bool" where
  "is_OnPanic (OnErrorCalled c e) = False"
| "is_OnPanic (OnPanicCalled c v) = True"

text \<open>
  What holds of the world for the signal context \<open>i\<close> from its creation on: it is registered
  for exactly \<open>sigs\<close>, or has been stopped.
\<close>

definition run_inv :: "nat \<Rightarrow> signal list \<Rightarrow> world \<Rightarrow> bool" where
  "run_inv i sigs w =
     ((\<forall>sg. (i, sg) \<in> set (registered w) \<longrightarrow> sg = sigs) \<and>
      ((i, sigs) \<in> set (registered w) \<or> i \<in> stopped w))"

definition bind_error :: error where
  "bind_error =
     WrapError ''listen tcp 127.0.0.1:8080: bind: address already in use''
       (ErrorString ''address already in use'')"

definition deadline_exceeded :: error where
  "deadline_exceeded = ErrorString ''context deadline exceeded''"

text \<open>A server whose port is taken, and whose shutdown fails under any deadline.\<close>

definition busy_server :: http_Server where
  "busy_server =
     \<lparr>Server_Addr = ''127.0.0.1:8080'',
      Server_ListenAndServe = Returns (Some bind_error),
      Server_Shutdown = (\<lambda>ctx. case ctx_Deadline ctx of None \<Rightarrow> None
                                | Some d \<Rightarrow> Some deadline_exceeded)\<rparr>"

definition busy_runner :: httpServerRunner where
  "busy_runner = \<lparr>server = busy_server, onError = Some noop_onError, onPanic = Some noop_onPanic\<rparr>"

text \<open>The error sink of the tests, \<^verbatim>\<open>func(ctx, err) { panic(err) }\<close>.\<close>

definition panic_onError :: onError_func where
  "panic_onError ctx err = Panics (PanicError err)"

definition panic_runner :: httpServerRunner where
  "panic_runner = \<lparr>server = busy_server, onError = Some panic_onError, onPanic = Some noop_onPanic\<rparr>"

text \<open>A server whose accept loop panics, and a panic sink that panics itself.\<close>

definition panicking_server :: http_Server where
  "panicking_server =
     \<lparr>Server_Addr = ''127.0.0.1:8080'',
      Server_ListenAndServe = Panics (PanicString ''boom''),
      Server_Shutdown = (\<lambda>ctx. None)\<rparr>"

definition failing_onPanic :: onPanic_func where
  "failing_onPanic ctx rvr = Panics (PanicString ''sink failed'')"

definition failing_runner :: httpServerRunner where
  "failing_runner =
     \<lparr>server = panicking_server, onError = Some noop_onError, onPanic = Some failing_onPanic\<rparr>"

text \<open>A world in which the caller's context \<open>WithCancel Background 0\<close> is already cancelled.\<close>

definition cancelled_world :: world where
  "cancelled_world =
     \<lparr>now = 5, next_id = 1, cancelled = {0}, stopped = {}, received = {}, registered = []\<rparr>"

section \<open>Package httplib\<close>

subsection \<open>Request and response logs in a context (context.go)\<close>

text \<open>The struct \<^verbatim>\<open>RequestLog\<close>; the time stamp is a \<^verbatim>\<open>time.Time\<close>, here in nanoseconds.\<close>

record RequestLog =
  Timestamp :: int
  Method :: string
  URL :: string
  ContentLength :: "64 word"
  Proto :: string
  Host :: string
  RemoteAddr :: string
  UserAgent :: string
  RequestURI :: string
  Referer :: string

text \<open>The zero value \<^verbatim>\<open>RequestLog{}\<close>.\<close>

definition zero_RequestLog :: RequestLog where
  "zero_RequestLog =
     \<lparr>Timestamp = 0, Method = [], URL = [], ContentLength = 0, Proto = [], Host = [],
      RemoteAddr = [], UserAgent = [], RequestURI = [], Referer = []\<rparr>"

record HandlerInfo =
  FuncName :: string
  File :: string
  Line :: int

text \<open>The struct \<^verbatim>\<open>ResponseLog\<close> (its field \<^verbatim>\<open>Error\<close> is \<open>LogError\<close> here).\<close>

record ResponseLog =
  StatusCode :: int
  ResponseSize :: "64 word"
  LogError :: "error option"
  Handler :: HandlerInfo

text \<open>
  The heap cells that hold the logs the contexts point to, and the next unused address.
  A pointer a Go program holds is always to a live cell, so the cells are total.
\<close>

record memory =
  requestLogs :: "addr \<Rightarrow> RequestLog"
  responseLogs :: "addr \<Rightarrow> ResponseLog"
  brk :: addr

definition contextKeyRequestLog :: key where
  "contextKeyRequestLog = ContextKey 0"

definition contextKeyResponseLog :: key where
  "contextKeyResponseLog = ContextKey 1"

definition contextKeyLatency :: key where
  "contextKeyLatency = ContextKey 2"

text \<open>
  The type assertion \<^verbatim>\<open>.(*RequestLog)\<close> fails on nil and on a value of another type; a nil
  pointer of the right type passes it and is caught by the second test.
\<close>

definition GetRequestLogFromContext :: "memory \<Rightarrow> context \<Rightarrow> RequestLog" where
  "GetRequestLogFromContext mem ctx =
     (case ctx_Value ctx contextKeyRequestLog of
        Some (RequestLogPtr requestLog) \<Rightarrow>
          (case requestLog of None \<Rightarrow> zero_RequestLog | Some a \<Rightarrow> requestLogs mem a)
      | _ \<Rightarrow> zero_RequestLog)"

text \<open>
  The parameter \<^verbatim>\<open>requestLog\<close> is the callee's own copy of the argument; taking its address
  moves it to a new heap cell.
\<close>

definition WithRequestLog :: "memory \<Rightarrow> context \<Rightarrow> RequestLog \<Rightarrow> memory \<times> context" where
  "WithRequestLog mem ctx requestLog =
     (let a = brk mem
      in (mem\<lparr>requestLogs := (requestLogs mem)(a := requestLog), brk := Suc a\<rparr>,
          WithValue ctx contextKeyRequestLog (RequestLogPtr (Some a))))"


definition WithResponseLogPtr :: "context \<Rightarrow> addr option \<Rightarrow> context" where
  "WithResponseLogPtr ctx resPtr = WithValue ctx contextKeyResponseLog (ResponseLogPtr resPtr)"

definition GetLatencyFromContext :: "context \<Rightarrow> int" where
  "GetLatencyFromContext ctx =
     (case ctx_Value ctx contextKeyLatency of
        Some (DurationValue latency) \<Rightarrow> latency
      | _ \<Rightarrow> 0)"

definition WithLatency :: "context \<Rightarrow> int \<Rightarrow> context" where
  "WithLatency ctx latency = WithValue ctx contextKeyLatency (DurationValue latency)"

text \<open>An assignment through a pointer to a request log, as a caller can make it.\<close>

definition store_RequestLog :: "addr \<Rightarrow> RequestLog \<Rightarrow> memory \<Rightarrow> memory" where
  "store_RequestLog a l mem = mem\<lparr>requestLogs := (requestLogs mem)(a := l)\<rparr>"

subsection \<open>Rendering a response (response.go, response\_body\_writer.go)\<close>





















subsection \<open>Decoding a request body (response.go)\<close>




subsubsection \<open>The scanner of encoding/json (scanner.go)\<close>























subsubsection \<open>The stream decoder of encoding/json (stream.go, decode.go)\<close>





text \<open>Some kinds of \<^verbatim>\<open>reflect.Kind\<close>.\<close>

datatype kind =
    reflect_Bool | reflect_Int | reflect_Float64 | reflect_String | reflect_Array | reflect_Struct
  | reflect_Interface | reflect_Map | reflect_Pointer | reflect_Slice










subsection \<open>Values used as concrete inputs of package httplib\<close>



definition empty_memory :: memory where
  "empty_memory =
     \<lparr>requestLogs = (\<lambda>a. zero_RequestLog),
      responseLogs = (\<lambda>a. \<lparr>StatusCode = 0, ResponseSize = 0, LogError = None,
                            Handler = \<lparr>FuncName = [], File = [], Line = 0\<rparr>\<rparr>),
      brk = 0\<rparr>"


definition get_example :: RequestLog where
  "get_example = zero_RequestLog\<lparr>Method := ''GET'', Host := ''example.com''\<rparr>"



text \<open>The caller's variable \<^verbatim>\<open>rl\<close> of the test lives in cell 0.\<close>

definition caller_memory :: memory where
  "caller_memory = empty_memory\<lparr>requestLogs := (requestLogs empty_memory)(0 := get_example), brk := 1\<rparr>"

section \<open>Verification: package runner\<close>

lemma constructed_runner:
  assumes "NewHTTPServerRunner (Some srv) oe op = Inr r"
  shows "server r = srv"
    and "onError r = Some (case oe of None \<Rightarrow> noop_onError | Some f \<Rightarrow> f)"
    and "onPanic r = Some (case op of None \<Rightarrow> noop_onPanic | Some f \<Rightarrow> f)"
  using assms by (auto simp: NewHTTPServerRunner_def split: option.splits)

lemma run_inv_apply_event: "run_inv i sigs w \<Longrightarrow> run_inv i sigs (apply_event e w)"
  by (cases e) (auto simp: run_inv_def cancel_def stop_def deliver_def)

lemma apply_event_done:
  assumes "run_inv i sigs w"
  shows "(i \<in> received (apply_event e w) \<or> i \<in> stopped (apply_event e w)) \<longleftrightarrow>
         (i \<in> received w \<or> i \<in> stopped w \<or> e = StopFunc i \<or> (\<exists>s \<in> set sigs. e = Deliver s))"
proof (cases e)
  case (Advance d)
  then show ?thesis by simp
next
  case (CancelFunc j)
  then show ?thesis by (simp add: cancel_def)
next
  case (StopFunc j)
  then show ?thesis by (auto simp: stop_def)
next
  case (Deliver s)
  have "i \<in> fst ` {x \<in> set (registered w). case x of (j, sg) \<Rightarrow> s \<in> set sg} \<longleftrightarrow>
        (\<exists>sg. (i, sg) \<in> set (registered w) \<and> s \<in> set sg)"
    by force
  then show ?thesis
    using Deliver assms by (auto simp: deliver_def run_inv_def)
qed

lemma run_events_done:
  assumes "run_inv i sigs w"
  shows "(i \<in> received (run_events evs w) \<or> i \<in> stopped (run_events evs w)) \<longleftrightarrow>
         (i \<in> received w \<or> i \<in> stopped w \<or>
          (\<exists>e \<in> set evs. e = StopFunc i \<or> (\<exists>s \<in> set sigs. e = Deliver s)))"
  using assms
proof (induction evs arbitrary: w)
  case Nil
  then show ?case by simp
next
  case (Cons e evs)
  have inv: "run_inv i sigs (apply_event e w)"
    using Cons.prems by (rule run_inv_apply_event)
  have step: "(i \<in> received (apply_event e w) \<or> i \<in> stopped (apply_event e w)) \<longleftrightarrow>
         (i \<in> received w \<or> i \<in> stopped w \<or> e = StopFunc i \<or> (\<exists>s \<in> set sigs. e = Deliver s))"
    using Cons.prems by (rule apply_event_done)
  have ih: "(i \<in> received (run_events evs (apply_event e w)) \<or>
             i \<in> stopped (run_events evs (apply_event e w))) \<longleftrightarrow>
         (i \<in> received (apply_event e w) \<or> i \<in> stopped (apply_event e w) \<or>
          (\<exists>e \<in> set evs. e = StopFunc i \<or> (\<exists>s \<in> set sigs. e = Deliver s)))"
    using inv by (rule Cons.IH)
  have split: "(\<exists>x \<in> set (e # evs). P x) \<longleftrightarrow> (P e \<or> (\<exists>x \<in> set evs. P x))" for P
    by simp
  show ?case
    unfolding run_events.simps split using ih step by blast
qed

lemma Run_ctx:
  "run_ctx (Run r w parent) = NotifyContext (WithoutCancel parent) (next_id w) [SIGTERM, SIGINT]"
  "run_stop (Run r w parent) = next_id w"
  "run_goroutine_ctx (Run r w parent) = run_ctx (Run r w parent)"
  "run_world (Run r w parent) =
     w\<lparr>next_id := Suc (next_id w), registered := (next_id w, [SIGTERM, SIGINT]) # registered w\<rparr>"
  by (simp_all add: Run_def signal_NotifyContext_def os_Interrupt_def Let_def)

lemma Run_fresh:
  assumes "wf_world w"
  shows "run_inv (next_id w) [SIGTERM, SIGINT] (run_world (Run r w parent))"
    and "next_id w \<notin> received (run_world (Run r w parent))"
    and "next_id w \<notin> stopped (run_world (Run r w parent))"
proof -
  have r: "\<forall>i \<in> set (map fst (registered w)). i < next_id w"
    and s: "\<forall>i \<in> stopped w. i < next_id w"
    and c: "\<forall>i \<in> received w. i < next_id w"
    using assms by (simp_all add: wf_world_def)
  have "(next_id w, sg) \<notin> set (registered w)" for sg
    using r by force
  then show "run_inv (next_id w) [SIGTERM, SIGINT] (run_world (Run r w parent))"
    by (simp add: run_inv_def Run_ctx)
  show "next_id w \<notin> received (run_world (Run r w parent))"
    using c by (auto simp: Run_ctx)
  show "next_id w \<notin> stopped (run_world (Run r w parent))"
    using s by (auto simp: Run_ctx)
qed

lemma wf_cancelled_world: "wf_world cancelled_world"
  by (simp add: wf_world_def cancelled_world_def)

lemma wf_init_world: "wf_world init_world"
  by (simp add: wf_world_def init_world_def)

text \<open>
  Claim C1. For every timeout \<open>t \<le> 0\<close>, \<^verbatim>\<open>Shutdown(t)\<close> hands \<^verbatim>\<open>Server.Shutdown\<close> the
  background context: it has no deadline and is done in no world, so nothing but the drain
  itself ends the call; and \<^verbatim>\<open>Shutdown\<close> returns exactly the error of that call.
\<close>

theorem Shutdown_nonpositive_timeout:
  assumes "timeout \<le> 0"
  shows "shutdown_ctx (Shutdown r w timeout) = Background \<and>
         ctx_Deadline (shutdown_ctx (Shutdown r w timeout)) = None \<and>
         (\<forall>w'. \<not> ctx_done w' (shutdown_ctx (Shutdown r w timeout))) \<and>
         shutdown_err (Shutdown r w timeout) =
           Server_Shutdown (server r) (shutdown_ctx (Shutdown r w timeout)) \<and>
         shutdown_world (Shutdown r w timeout) = w"
  using assms by (simp add: Shutdown_def)

theorem Shutdown_nonpositive_timeout_witness:
  "(-5::int) \<le> 0 \<and>
   shutdown_ctx (Shutdown busy_runner init_world (-5)) = Background \<and>
   shutdown_err (Shutdown busy_runner init_world (-5)) = None \<and>
   shutdown_err (Shutdown busy_runner init_world 0) = None"
proof -
  have h: "(-5::int) \<le> 0" by simp
  have z: "(0::int) \<le> 0" by simp
  show ?thesis
    using Shutdown_nonpositive_timeout [OF h, of busy_runner init_world]
      Shutdown_nonpositive_timeout [OF z, of busy_runner init_world]
    by (simp add: busy_runner_def busy_server_def)
qed

text \<open>
  Claim C2, as amended. \<^verbatim>\<open>Run\<close> registers the completion context for SIGTERM and the
  interrupt signal. Calling the returned stop function ends that interception and marks
  the completion context done, whether or not a signal had been received; calling it again
  changes nothing.
\<close>

theorem stop_cancels_completion_context:
  assumes "wf_world w"
  shows "intercepts (run_world (Run r w parent)) (run_stop (Run r w parent)) SIGTERM \<and>
         intercepts (run_world (Run r w parent)) (run_stop (Run r w parent)) os_Interrupt \<and>
         \<not> ctx_done (run_world (Run r w parent)) (run_ctx (Run r w parent)) \<and>
         (\<forall>w' s. \<not> intercepts (stop (run_stop (Run r w parent)) w') (run_stop (Run r w parent)) s) \<and>
         (\<forall>w'. ctx_done (stop (run_stop (Run r w parent)) w') (run_ctx (Run r w parent))) \<and>
         (\<forall>w'. stop (run_stop (Run r w parent)) (stop (run_stop (Run r w parent)) w') =
                stop (run_stop (Run r w parent)) w')"
proof -
  note f = Run_fresh [OF assms, of r parent]
  have a: "intercepts (run_world (Run r w parent)) (run_stop (Run r w parent)) SIGTERM"
          "intercepts (run_world (Run r w parent)) (run_stop (Run r w parent)) os_Interrupt"
    by (simp_all add: intercepts_def Run_ctx os_Interrupt_def)
  have c: "\<not> ctx_done (run_world (Run r w parent)) (run_ctx (Run r w parent))"
    using f(2,3) by (simp add: Run_ctx(1))
  have d: "\<not> intercepts (stop i w') i s" for i w' s
    by (auto simp: intercepts_def stop_def)
  have e: "ctx_done (stop (run_stop (Run r w parent)) w') (run_ctx (Run r w parent))" for w'
    by (simp add: Run_ctx(1,2) stop_def)
  have g: "stop i (stop i w') = stop i w'" for i w'
    by (simp add: stop_def)
  from a c d e g show ?thesis by blast
qed

theorem stop_cancels_completion_context_witness:
  "wf_world init_world \<and>
   run_stop (Run busy_runner init_world Background) = 0 \<and>
   intercepts (run_world (Run busy_runner init_world Background)) 0 SIGTERM \<and>
   \<not> intercepts (stop 0 (run_world (Run busy_runner init_world Background))) 0 SIGTERM \<and>
   ctx_done (stop 0 (run_world (Run busy_runner init_world Background)))
     (run_ctx (Run busy_runner init_world Background))"
proof -
  have s: "run_stop (Run busy_runner init_world Background) = 0"
    by (simp add: Run_ctx(2) init_world_def)
  show ?thesis
    using stop_cancels_completion_context [OF wf_init_world, of busy_runner Background]
      wf_init_world
    unfolding s by blast
qed

text \<open>
  The claim C2 as it is written fails: in the initial world no signal has been received,
  the completion context is not done after \<^verbatim>\<open>Run\<close>, and the stop function alone makes it
  done.
\<close>

theorem stop_alone_marks_done_counterexample:
  "received (stop (run_stop (Run busy_runner init_world Background))
       (run_world (Run busy_runner init_world Background))) = {} \<and>
   \<not> ctx_done (run_world (Run busy_runner init_world Background))
       (run_ctx (Run busy_runner init_world Background)) \<and>
   ctx_done (stop (run_stop (Run busy_runner init_world Background))
       (run_world (Run busy_runner init_world Background)))
     (run_ctx (Run busy_runner init_world Background))"
  by (simp add: Run_ctx init_world_def stop_def)

text \<open>
  Claim C3. Let the accept loop end by returning \<open>e\<close>. When \<open>e\<close> is non-nil and is not the
  server-closed error in the sense of \<^verbatim>\<open>errors.Is\<close>, the test the code applies, the
  goroutine calls the error sink of the runner, the given function or the no-op, once with
  the completion context and \<open>e\<close>, and goes on as that call ends: it returns when the sink
  returns, and hands the panic to the panic sink when the sink panics. In every other case
  the error sink is not called; when the loop ends with \<^verbatim>\<open>http.ErrServerClosed\<close> (or with
  nil) no sink is called at all and the goroutine returns.
\<close>

theorem goroutine_error_sink:
  assumes "NewHTTPServerRunner (Some srv) oe op = Inr r"
      and "Server_ListenAndServe srv = Returns e"
  shows "(\<forall>e'. e = Some e' \<and> \<not> errors_Is e' ErrServerClosed \<longrightarrow>
            call_onError r ctx e' = (case oe of None \<Rightarrow> Returns () | Some f \<Rightarrow> f ctx e') \<and>
            serve r ctx = ([OnErrorCalled ctx e'], call_onError r ctx e') \<and>
            (call_onError r ctx e' = Returns () \<longrightarrow>
               goroutine r ctx = ([OnErrorCalled ctx e'], Returns ())) \<and>
            (\<forall>v. call_onError r ctx e' = Panics v \<longrightarrow>
               goroutine r ctx =
                 ([OnErrorCalled ctx e', OnPanicCalled ctx v], call_onPanic r ctx v))) \<and>
         filter is_OnError (fst (goroutine r ctx)) =
           (case e of
              None \<Rightarrow> []
            | Some e' \<Rightarrow> if errors_Is e' ErrServerClosed then [] else [OnErrorCalled ctx e']) \<and>
         (\<forall>e'. e = Some e' \<and> errors_Is e' ErrServerClosed \<longrightarrow>
            goroutine r ctx = ([], Returns ())) \<and>
         (e = Some ErrServerClosed \<longrightarrow> goroutine r ctx = ([], Returns ())) \<and>
         (e = None \<longrightarrow> goroutine r ctx = ([], Returns ())) \<and>
         run_goroutine_ctx (Run r w parent) = run_ctx (Run r w parent)"
proof -
  have s: "server r = srv"
    using assms(1) by (rule constructed_runner)
  have o: "onError r = Some (case oe of None \<Rightarrow> noop_onError | Some f \<Rightarrow> f)"
    using assms(1) by (rule constructed_runner)
  have g: "run_goroutine_ctx (Run r w parent) = run_ctx (Run r w parent)"
    by (rule Run_ctx(3))
  have c: "call_onError r ctx e' = (case oe of None \<Rightarrow> Returns () | Some f \<Rightarrow> f ctx e')" for e'
    using o by (simp add: call_onError_def noop_onError_def split: option.splits)
  have sv: "serve r ctx = ([OnErrorCalled ctx e'], call_onError r ctx e')"
    if "e = Some e'" "\<not> errors_Is e' ErrServerClosed" for e'
    using that assms(2) s by (simp add: serve_def)
  have g1: "goroutine r ctx = ([OnErrorCalled ctx e'], Returns ())"
    if "e = Some e'" "\<not> errors_Is e' ErrServerClosed" "call_onError r ctx e' = Returns ()" for e'
    using sv [OF that(1,2)] that(3) by (simp add: goroutine_def)
  have g2: "goroutine r ctx = ([OnErrorCalled ctx e', OnPanicCalled ctx v], call_onPanic r ctx v)"
    if "e = Some e'" "\<not> errors_Is e' ErrServerClosed" "call_onError r ctx e' = Panics v" for e' v
    using sv [OF that(1,2)] that(3) by (simp add: goroutine_def)
  have first: "\<forall>e'. e = Some e' \<and> \<not> errors_Is e' ErrServerClosed \<longrightarrow>
            call_onError r ctx e' = (case oe of None \<Rightarrow> Returns () | Some f \<Rightarrow> f ctx e') \<and>
            serve r ctx = ([OnErrorCalled ctx e'], call_onError r ctx e') \<and>
            (call_onError r ctx e' = Returns () \<longrightarrow>
               goroutine r ctx = ([OnErrorCalled ctx e'], Returns ())) \<and>
            (\<forall>v. call_onError r ctx e' = Panics v \<longrightarrow>
               goroutine r ctx =
                 ([OnErrorCalled ctx e', OnPanicCalled ctx v], call_onPanic r ctx v))"
    using c sv g1 g2 by blast
  have rest: "filter is_OnError (fst (goroutine r ctx)) =
           (case e of
              None \<Rightarrow> []
            | Some e' \<Rightarrow> if errors_Is e' ErrServerClosed then [] else [OnErrorCalled ctx e']) \<and>
         (\<forall>e'. e = Some e' \<and> errors_Is e' ErrServerClosed \<longrightarrow>
            goroutine r ctx = ([], Returns ())) \<and>
         (e = Some ErrServerClosed \<longrightarrow> goroutine r ctx = ([], Returns ())) \<and>
         (e = None \<longrightarrow> goroutine r ctx = ([], Returns ()))"
  proof (cases e)
    case None
    then show ?thesis
      using assms(2) s by (simp add: goroutine_def serve_def)
  next
    case (Some e')
    show ?thesis
    proof (cases "errors_Is e' ErrServerClosed")
      case True
      then show ?thesis
        using Some assms(2) s by (auto simp: goroutine_def serve_def)
    next
      case False
      then show ?thesis
        using Some assms(2) s
        by (cases "call_onError r ctx e'") (auto simp: goroutine_def serve_def)
    qed
  qed
  from first rest g show ?thesis by blast
qed

theorem goroutine_error_sink_witness:
  "NewHTTPServerRunner (Some busy_server) None None = Inr busy_runner \<and>
   NewHTTPServerRunner (Some busy_server) (Some panic_onError) None = Inr panic_runner \<and>
   Server_ListenAndServe busy_server = Returns (Some bind_error) \<and>
   \<not> errors_Is bind_error ErrServerClosed \<and>
   goroutine busy_runner Background = ([OnErrorCalled Background bind_error], Returns ()) \<and>
   call_onError panic_runner Background bind_error = Panics (PanicError bind_error) \<and>
   serve panic_runner Background =
     ([OnErrorCalled Background bind_error], Panics (PanicError bind_error)) \<and>
   fst (goroutine panic_runner Background) =
     [OnErrorCalled Background bind_error, OnPanicCalled Background (PanicError bind_error)]"
proof -
  have h1: "NewHTTPServerRunner (Some busy_server) None None = Inr busy_runner"
    by (simp add: NewHTTPServerRunner_def busy_runner_def)
  have h1': "NewHTTPServerRunner (Some busy_server) (Some panic_onError) None = Inr panic_runner"
    by (simp add: NewHTTPServerRunner_def panic_runner_def)
  have h2: "Server_ListenAndServe busy_server = Returns (Some bind_error)"
    by (simp add: busy_server_def)
  have n: "\<not> errors_Is bind_error ErrServerClosed"
    by (simp add: bind_error_def)
  note t1 = goroutine_error_sink [OF h1 h2, of Background]
  note t2 = goroutine_error_sink [OF h1' h2, of Background]
  have c1: "call_onError busy_runner Background bind_error = Returns ()"
    using t1 n by simp
  have g1: "goroutine busy_runner Background = ([OnErrorCalled Background bind_error], Returns ())"
    using t1 n c1 by blast
  have c2: "call_onError panic_runner Background bind_error = Panics (PanicError bind_error)"
    using t2 n by (simp add: panic_onError_def)
  have s2: "serve panic_runner Background =
     ([OnErrorCalled Background bind_error], Panics (PanicError bind_error))"
    using t2 n c2 by simp
  have g2: "goroutine panic_runner Background =
     ([OnErrorCalled Background bind_error, OnPanicCalled Background (PanicError bind_error)],
      call_onPanic panic_runner Background (PanicError bind_error))"
    using t2 n c2 by blast
  from h1 h1' h2 n g1 c2 s2 g2 show ?thesis by simp
qed

text \<open>
  Claim C4, as amended. A panic raised by the accept loop, or by the error sink while it
  handles a listen failure, is recovered and handed exactly once to the panic sink with the
  completion context; the panic sink is called at most once in all, and not at all when
  nothing panicked. The goroutine then ends the way the panic sink ends: when the panic
  sink returns, the goroutine returns and nothing propagates.
\<close>

theorem goroutine_recovers:
  assumes "NewHTTPServerRunner (Some srv) oe op = Inr r"
  shows "(\<forall>v. Server_ListenAndServe srv = Panics v \<longrightarrow>
            fst (goroutine r ctx) = [OnPanicCalled ctx v] \<and>
            snd (goroutine r ctx) = call_onPanic r ctx v) \<and>
         (\<forall>e v. Server_ListenAndServe srv = Returns (Some e) \<and> \<not> errors_Is e ErrServerClosed \<and>
              call_onError r ctx e = Panics v \<longrightarrow>
            fst (goroutine r ctx) = [OnErrorCalled ctx e, OnPanicCalled ctx v] \<and>
            snd (goroutine r ctx) = call_onPanic r ctx v) \<and>
         (snd (serve r ctx) = Returns () \<longrightarrow>
            filter is_OnPanic (fst (goroutine r ctx)) = [] \<and> snd (goroutine r ctx) = Returns ()) \<and>
         length (filter is_OnPanic (fst (goroutine r ctx))) \<le> 1 \<and>
         ((\<forall>v. call_onPanic r ctx v = Returns ()) \<longrightarrow> snd (goroutine r ctx) = Returns ()) \<and>
         (\<forall>c v. call_onPanic r c v = (case op of None \<Rightarrow> Returns () | Some f \<Rightarrow> f c v)) \<and>
         run_goroutine_ctx (Run r w parent) = run_ctx (Run r w parent)"
proof -
  have c7: "run_goroutine_ctx (Run r w parent) = run_ctx (Run r w parent)"
    by (rule Run_ctx(3))
  have s: "server r = srv"
    using assms by (rule constructed_runner)
  have p: "onPanic r = Some (case op of None \<Rightarrow> noop_onPanic | Some f \<Rightarrow> f)"
    using assms by (rule constructed_runner)
  have c1: "\<forall>v. Server_ListenAndServe srv = Panics v \<longrightarrow>
            fst (goroutine r ctx) = [OnPanicCalled ctx v] \<and>
            snd (goroutine r ctx) = call_onPanic r ctx v"
    using s by (simp add: goroutine_def serve_def)
  have c2: "\<forall>e v. Server_ListenAndServe srv = Returns (Some e) \<and> \<not> errors_Is e ErrServerClosed \<and>
              call_onError r ctx e = Panics v \<longrightarrow>
            fst (goroutine r ctx) = [OnErrorCalled ctx e, OnPanicCalled ctx v] \<and>
            snd (goroutine r ctx) = call_onPanic r ctx v"
    using s by (simp add: goroutine_def serve_def)
  have c3: "snd (serve r ctx) = Returns () \<longrightarrow>
            filter is_OnPanic (fst (goroutine r ctx)) = [] \<and> snd (goroutine r ctx) = Returns ()"
    by (cases "serve r ctx")
       (auto simp: goroutine_def serve_def split: outcome.splits option.splits if_splits)
  have c4: "length (filter is_OnPanic (fst (goroutine r ctx))) \<le> 1"
    by (cases "serve r ctx")
       (auto simp: goroutine_def serve_def split: outcome.splits option.splits if_splits)
  have c5: "(\<forall>v. call_onPanic r ctx v = Returns ()) \<longrightarrow> snd (goroutine r ctx) = Returns ()"
    by (cases "serve r ctx") (auto simp: goroutine_def split: outcome.splits)
  have c6: "\<forall>c v. call_onPanic r c v = (case op of None \<Rightarrow> Returns () | Some f \<Rightarrow> f c v)"
    using p by (simp add: call_onPanic_def noop_onPanic_def split: option.splits)
  from c1 c2 c3 c4 c5 c6 c7 show ?thesis by blast
qed

theorem goroutine_recovers_witness:
  "NewHTTPServerRunner (Some busy_server) (Some panic_onError) None = Inr panic_runner \<and>
   Server_ListenAndServe busy_server = Returns (Some bind_error) \<and>
   call_onError panic_runner Background bind_error = Panics (PanicError bind_error) \<and>
   fst (goroutine panic_runner Background) =
     [OnErrorCalled Background bind_error, OnPanicCalled Background (PanicError bind_error)] \<and>
   snd (goroutine panic_runner Background) = Returns ()"
proof -
  have h1: "NewHTTPServerRunner (Some busy_server) (Some panic_onError) None = Inr panic_runner"
    by (simp add: NewHTTPServerRunner_def panic_runner_def)
  have h2: "Server_ListenAndServe busy_server = Returns (Some bind_error)"
    by (simp add: busy_server_def)
  have n: "\<not> errors_Is bind_error ErrServerClosed"
    by (simp add: bind_error_def)
  have h3: "call_onError panic_runner Background bind_error = Panics (PanicError bind_error)"
    by (simp add: call_onError_def panic_runner_def panic_onError_def)
  have h4: "\<forall>v. call_onPanic panic_runner Background v = Returns ()"
    by (simp add: call_onPanic_def panic_runner_def noop_onPanic_def)
  show ?thesis
    using goroutine_recovers [OF h1, of Background] h1 h2 n h3 h4 by blast
qed

text \<open>
  The claim C4 as it is written fails for a panic raised by the panic sink itself, which
  runs inside the same goroutine: on a runner built by the constructor, the accept loop
  panics, the panic sink is called and panics in turn, and the goroutine ends with that
  panic unrecovered.
\<close>

theorem panic_sink_panic_propagates_counterexample:
  "NewHTTPServerRunner (Some panicking_server) None (Some failing_onPanic) = Inr failing_runner \<and>
   goroutine failing_runner Background =
     ([OnPanicCalled Background (PanicString ''boom'')], Panics (PanicString ''sink failed''))"
  by (simp add: NewHTTPServerRunner_def failing_runner_def goroutine_def serve_def
      panicking_server_def call_onPanic_def failing_onPanic_def)

text \<open>
  Claim C5. For every timeout \<open>t > 0\<close>, \<^verbatim>\<open>Shutdown(t)\<close> hands \<^verbatim>\<open>Server.Shutdown\<close> a new
  context with the deadline \<open>now + t\<close> whose only ancestor is the background context: it is
  not the completion context of any \<^verbatim>\<open>Run\<close> and derives from no context passed to \<^verbatim>\<open>Run\<close>.
  It is done exactly when its own deadline has passed or its own cancel function has run,
  so no other cancel function, no stop function and no signal changes whether it is done.
\<close>

theorem Shutdown_positive_timeout:
  assumes "0 < timeout"
  shows "shutdown_ctx (Shutdown r w timeout) = WithDeadline Background (next_id w) (now w + timeout) \<and>
         ctx_Deadline (shutdown_ctx (Shutdown r w timeout)) = Some (now w + timeout) \<and>
         ancestors (shutdown_ctx (Shutdown r w timeout)) = [Background] \<and>
         shutdown_err (Shutdown r w timeout) =
           Server_Shutdown (server r) (shutdown_ctx (Shutdown r w timeout)) \<and>
         (\<forall>r' w0 parent. shutdown_ctx (Shutdown r w timeout) \<noteq> run_ctx (Run r' w0 parent) \<and>
            run_ctx (Run r' w0 parent) \<notin> set (ancestors (shutdown_ctx (Shutdown r w timeout))) \<and>
            (parent \<in> set (ancestors (shutdown_ctx (Shutdown r w timeout))) \<longrightarrow> parent = Background)) \<and>
         (\<forall>w'. ctx_done w' (shutdown_ctx (Shutdown r w timeout)) \<longleftrightarrow>
                 (next_id w \<in> cancelled w' \<or> now w + timeout \<le> now w')) \<and>
         (\<forall>w' j. j \<noteq> next_id w \<longrightarrow>
            ctx_done (cancel j w') (shutdown_ctx (Shutdown r w timeout)) =
            ctx_done w' (shutdown_ctx (Shutdown r w timeout))) \<and>
         (\<forall>w' j. ctx_done (stop j w') (shutdown_ctx (Shutdown r w timeout)) =
            ctx_done w' (shutdown_ctx (Shutdown r w timeout))) \<and>
         (\<forall>w' s. ctx_done (deliver s w') (shutdown_ctx (Shutdown r w timeout)) =
            ctx_done w' (shutdown_ctx (Shutdown r w timeout)))"
  using assms
  by (simp add: Shutdown_def context_WithTimeout_def Run_def signal_NotifyContext_def
      cancel_def stop_def deliver_def Let_def)

theorem Shutdown_positive_timeout_witness:
  "(0::int) < 3000000000 \<and>
   shutdown_ctx (Shutdown busy_runner cancelled_world 3000000000) =
     WithDeadline Background 1 3000000005 \<and>
   shutdown_err (Shutdown busy_runner cancelled_world 3000000000) = Some deadline_exceeded \<and>
   ctx_done cancelled_world (WithCancel Background 0) \<and>
   \<not> ctx_done cancelled_world (shutdown_ctx (Shutdown busy_runner cancelled_world 3000000000))"
proof -
  have h: "(0::int) < 3000000000" by simp
  have d: "ctx_done cancelled_world (WithCancel Background 0)"
    by (simp add: cancelled_world_def)
  have e: "Server_Shutdown (server busy_runner) (WithDeadline Background 1 3000000005) =
             Some deadline_exceeded"
    by (simp add: busy_runner_def busy_server_def)
  have n: "next_id cancelled_world = 1" "now cancelled_world = 5" "cancelled cancelled_world = {0}"
    by (simp_all add: cancelled_world_def)
  show ?thesis
    using Shutdown_positive_timeout [OF h, of busy_runner cancelled_world] d e
    by (simp add: n)
qed

text \<open>
  Claim C6. \<^verbatim>\<open>NewHTTPServerRunner\<close> panics exactly when the server is nil. With a server
  it returns a runner that holds this server and, for each callback, the given function or,
  where nil was given, a function that does nothing and returns: neither field is nil.
\<close>

theorem NewHTTPServerRunner_callbacks:
  "(NewHTTPServerRunner srv oe op = Inl (PanicString ''server is nil'') \<longleftrightarrow> srv = None) \<and>
   ((\<exists>p. NewHTTPServerRunner srv oe op = Inl p) \<longleftrightarrow> srv = None) \<and>
   (\<forall>s. srv = Some s \<longrightarrow>
      (\<exists>r. NewHTTPServerRunner srv oe op = Inr r \<and> server r = s \<and>
           onError r = Some (case oe of None \<Rightarrow> noop_onError | Some f \<Rightarrow> f) \<and>
           onPanic r = Some (case op of None \<Rightarrow> noop_onPanic | Some f \<Rightarrow> f) \<and>
           onError r \<noteq> None \<and> onPanic r \<noteq> None)) \<and>
   (\<forall>ctx e. noop_onError ctx e = Returns ()) \<and> (\<forall>ctx v. noop_onPanic ctx v = Returns ())"
  by (cases srv; cases oe; cases op)
     (simp_all add: NewHTTPServerRunner_def noop_onError_def noop_onPanic_def)

theorem NewHTTPServerRunner_callbacks_witness:
  "NewHTTPServerRunner (Some busy_server) (Some panic_onError) None = Inr panic_runner \<and>
   onError panic_runner = Some panic_onError \<and> onPanic panic_runner = Some noop_onPanic \<and>
   NewHTTPServerRunner None (Some panic_onError) None = Inl (PanicString ''server is nil'')"
proof -
  have a: "NewHTTPServerRunner (Some busy_server) (Some panic_onError) None = Inr panic_runner"
    using NewHTTPServerRunner_callbacks [of "Some busy_server" "Some panic_onError" None]
    by (auto simp: panic_runner_def)
  have b: "NewHTTPServerRunner None (Some panic_onError) None = Inl (PanicString ''server is nil'')"
    using NewHTTPServerRunner_callbacks [of None "Some panic_onError" None] by simp
  show ?thesis
    using a b by (simp add: panic_runner_def)
qed

text \<open>
  Claim C7. \<^verbatim>\<open>Run\<close> derives the completion context from the parent with its cancellation
  and deadline removed: the completion context has no deadline and is not done when \<^verbatim>\<open>Run\<close>
  returns, whatever the state of the parent; and after any sequence of clock advances,
  cancel calls, stop calls and signals it is done exactly when the sequence holds a call
  of the returned stop function or a delivery of SIGTERM or of the interrupt signal.
\<close>

theorem Run_completion_context:
  assumes "wf_world w"
  shows "run_ctx (Run r w parent) =
           NotifyContext (WithoutCancel parent) (run_stop (Run r w parent)) [SIGTERM, os_Interrupt] \<and>
         ctx_Deadline (run_ctx (Run r w parent)) = None \<and>
         \<not> ctx_done (run_world (Run r w parent)) (run_ctx (Run r w parent)) \<and>
         (\<forall>evs. ctx_done (run_events evs (run_world (Run r w parent))) (run_ctx (Run r w parent)) \<longleftrightarrow>
            (\<exists>e \<in> set evs. e = StopFunc (run_stop (Run r w parent)) \<or>
                            e = Deliver SIGTERM \<or> e = Deliver os_Interrupt))"
proof -
  note f = Run_fresh [OF assms, of r parent]
  have a: "run_ctx (Run r w parent) =
           NotifyContext (WithoutCancel parent) (run_stop (Run r w parent)) [SIGTERM, os_Interrupt]"
    by (simp add: Run_ctx os_Interrupt_def)
  have b: "ctx_Deadline (run_ctx (Run r w parent)) = None"
    by (simp add: Run_ctx(1))
  have c: "\<not> ctx_done (run_world (Run r w parent)) (run_ctx (Run r w parent))"
    using f(2,3) by (simp add: Run_ctx(1))
  have d: "ctx_done (run_events evs (run_world (Run r w parent))) (run_ctx (Run r w parent)) \<longleftrightarrow>
            (\<exists>e \<in> set evs. e = StopFunc (run_stop (Run r w parent)) \<or>
                            e = Deliver SIGTERM \<or> e = Deliver os_Interrupt)" for evs
  proof -
    have "ctx_done (run_events evs (run_world (Run r w parent))) (run_ctx (Run r w parent)) \<longleftrightarrow>
          (next_id w \<in> received (run_events evs (run_world (Run r w parent))) \<or>
           next_id w \<in> stopped (run_events evs (run_world (Run r w parent))))"
      by (simp add: Run_ctx(1))
    also have "\<dots> \<longleftrightarrow> (\<exists>e \<in> set evs. e = StopFunc (next_id w) \<or>
                 (\<exists>s \<in> set [SIGTERM, SIGINT]. e = Deliver s))"
      using run_events_done [OF f(1), of evs] f(2,3) by blast
    also have "\<dots> \<longleftrightarrow> (\<exists>e \<in> set evs. e = StopFunc (run_stop (Run r w parent)) \<or>
                            e = Deliver SIGTERM \<or> e = Deliver os_Interrupt)"
      by (simp add: Run_ctx(2) os_Interrupt_def)
    finally show ?thesis .
  qed
  from a b c d show ?thesis by blast
qed

theorem Run_completion_context_witness:
  "wf_world cancelled_world \<and>
   ctx_done cancelled_world (WithDeadline (WithCancel Background 0) 0 3) \<and>
   run_ctx (Run busy_runner cancelled_world (WithDeadline (WithCancel Background 0) 0 3)) =
     NotifyContext (WithoutCancel (WithDeadline (WithCancel Background 0) 0 3)) 1 [SIGTERM, SIGINT] \<and>
   \<not> ctx_done
       (run_events [CancelFunc 0, Advance 60, Deliver SIGHUP, StopFunc 0]
          (run_world (Run busy_runner cancelled_world (WithDeadline (WithCancel Background 0) 0 3))))
       (run_ctx (Run busy_runner cancelled_world (WithDeadline (WithCancel Background 0) 0 3))) \<and>
   ctx_done
       (run_events [Advance 60, Deliver SIGTERM]
          (run_world (Run busy_runner cancelled_world (WithDeadline (WithCancel Background 0) 0 3))))
       (run_ctx (Run busy_runner cancelled_world (WithDeadline (WithCancel Background 0) 0 3)))"
proof -
  let ?p = "WithDeadline (WithCancel Background 0) 0 3"
  note t = Run_completion_context [OF wf_cancelled_world, of busy_runner ?p]
  have d: "ctx_done cancelled_world ?p"
    by (simp add: cancelled_world_def)
  have s: "run_stop (Run busy_runner cancelled_world ?p) = 1"
    by (simp add: Run_ctx(2) cancelled_world_def)
  have i: "os_Interrupt = SIGINT"
    by (simp add: os_Interrupt_def)
  have q: "ctx_done (run_events evs (run_world (Run busy_runner cancelled_world ?p)))
             (run_ctx (Run busy_runner cancelled_world ?p)) \<longleftrightarrow>
           (\<exists>e \<in> set evs. e = StopFunc 1 \<or> e = Deliver SIGTERM \<or> e = Deliver SIGINT)" for evs
    using t unfolding s i by blast
  have c: "run_ctx (Run busy_runner cancelled_world ?p) =
             NotifyContext (WithoutCancel ?p) 1 [SIGTERM, SIGINT]"
    using t unfolding s i by blast
  have n1: "\<not> ctx_done
       (run_events [CancelFunc 0, Advance 60, Deliver SIGHUP, StopFunc 0]
          (run_world (Run busy_runner cancelled_world ?p)))
       (run_ctx (Run busy_runner cancelled_world ?p))"
    unfolding q by simp
  have n2: "ctx_done
       (run_events [Advance 60, Deliver SIGTERM]
          (run_world (Run busy_runner cancelled_world ?p)))
       (run_ctx (Run busy_runner cancelled_world ?p))"
    unfolding q by simp
  show ?thesis
    using wf_cancelled_world d c n1 n2 by blast
qed

section \<open>Verification: package httplib\<close>













text \<open>
  Claim C10. Reading the request log from the context that \<^verbatim>\<open>WithRequestLog\<close> built gives
  the log that was stored, and still gives it after an assignment to any cell other than
  the new one that holds the copy (the caller's variable is such a cell). On a context
  with no value under the key, with a value of another type, or with a nil pointer,
  \<^verbatim>\<open>GetRequestLogFromContext\<close> returns the zero \<^verbatim>\<open>RequestLog\<close>.
\<close>

theorem RequestLog_roundtrip:
  "GetRequestLogFromContext (fst (WithRequestLog mem ctx l)) (snd (WithRequestLog mem ctx l)) = l \<and>
   (\<forall>a l'. a \<noteq> brk mem \<longrightarrow>
      GetRequestLogFromContext (store_RequestLog a l' (fst (WithRequestLog mem ctx l)))
        (snd (WithRequestLog mem ctx l)) = l) \<and>
   (ctx_Value ctx contextKeyRequestLog = None \<longrightarrow>
      GetRequestLogFromContext mem ctx = zero_RequestLog) \<and>
   (\<forall>v. ctx_Value ctx contextKeyRequestLog = Some v \<and> (\<forall>p. v \<noteq> RequestLogPtr p) \<longrightarrow>
      GetRequestLogFromContext mem ctx = zero_RequestLog) \<and>
   (ctx_Value ctx contextKeyRequestLog = Some (RequestLogPtr None) \<longrightarrow>
      GetRequestLogFromContext mem ctx = zero_RequestLog)"
proof -
  have a: "GetRequestLogFromContext (fst (WithRequestLog mem ctx l))
             (snd (WithRequestLog mem ctx l)) = l"
    by (simp add: WithRequestLog_def GetRequestLogFromContext_def Let_def)
  have b: "a \<noteq> brk mem \<longrightarrow>
      GetRequestLogFromContext (store_RequestLog a l' (fst (WithRequestLog mem ctx l)))
        (snd (WithRequestLog mem ctx l)) = l" for a l'
    by (simp add: WithRequestLog_def GetRequestLogFromContext_def store_RequestLog_def Let_def)
  have c: "ctx_Value ctx contextKeyRequestLog = None \<longrightarrow>
      GetRequestLogFromContext mem ctx = zero_RequestLog"
    by (simp add: GetRequestLogFromContext_def)
  have d: "ctx_Value ctx contextKeyRequestLog = Some v \<and> (\<forall>p. v \<noteq> RequestLogPtr p) \<longrightarrow>
      GetRequestLogFromContext mem ctx = zero_RequestLog" for v
    by (cases v) (simp_all add: GetRequestLogFromContext_def)
  have e: "ctx_Value ctx contextKeyRequestLog = Some (RequestLogPtr None) \<longrightarrow>
      GetRequestLogFromContext mem ctx = zero_RequestLog"
    by (simp add: GetRequestLogFromContext_def)
  from a b c d e show ?thesis by blast
qed

theorem RequestLog_roundtrip_witness:
  "brk caller_memory = 1 \<and> requestLogs caller_memory 0 = get_example \<and>
   GetRequestLogFromContext
     (store_RequestLog 0 (get_example\<lparr>Method := ''POST''\<rparr>)
        (fst (WithRequestLog caller_memory Background (requestLogs caller_memory 0))))
     (snd (WithRequestLog caller_memory Background (requestLogs caller_memory 0))) = get_example \<and>
   GetRequestLogFromContext caller_memory Background = zero_RequestLog \<and>
   GetRequestLogFromContext caller_memory
     (WithValue Background contextKeyRequestLog (StringValue ''wrong value'')) = zero_RequestLog \<and>
   GetRequestLogFromContext caller_memory (WithResponseLogPtr Background (Some 0)) = zero_RequestLog"
proof -
  have k: "brk caller_memory = 1" "requestLogs caller_memory 0 = get_example"
    by (simp_all add: caller_memory_def)
  have n: "(0::nat) \<noteq> brk caller_memory"
    by (simp add: k)
  have v1: "ctx_Value Background contextKeyRequestLog = None"
    by simp
  have v2: "ctx_Value (WithValue Background contextKeyRequestLog (StringValue ''wrong value''))
              contextKeyRequestLog = Some (StringValue ''wrong value'')"
    by simp
  have v3: "ctx_Value (WithResponseLogPtr Background (Some 0)) contextKeyRequestLog = None"
    by (simp add: WithResponseLogPtr_def contextKeyRequestLog_def contextKeyResponseLog_def)
  have w: "\<forall>p. StringValue ''wrong value'' \<noteq> RequestLogPtr p"
    by simp
  have r1: "GetRequestLogFromContext
     (store_RequestLog 0 (get_example\<lparr>Method := ''POST''\<rparr>)
        (fst (WithRequestLog caller_memory Background get_example)))
     (snd (WithRequestLog caller_memory Background get_example)) = get_example"
    using RequestLog_roundtrip [of caller_memory Background get_example] n by blast
  have r2: "GetRequestLogFromContext caller_memory Background = zero_RequestLog"
    using RequestLog_roundtrip [of caller_memory Background] v1 by blast
  have r3: "GetRequestLogFromContext caller_memory
     (WithValue Background contextKeyRequestLog (StringValue ''wrong value'')) = zero_RequestLog"
    using RequestLog_roundtrip
      [of caller_memory "WithValue Background contextKeyRequestLog (StringValue ''wrong value'')"]
      v2 w by blast
  have r4: "GetRequestLogFromContext caller_memory (WithResponseLogPtr Background (Some 0)) =
              zero_RequestLog"
    using RequestLog_roundtrip [of caller_memory "WithResponseLogPtr Background (Some 0)"] v3
    by blast
  from k r1 r2 r3 r4 show ?thesis by simp
qed

end
